theory Spec2Isabelle
  imports Main "HOL-Library.Sublist"
begin

section \<open>The bootstrap launcher \<open>start_server.py\<close>\<close>

text \<open>
  The launcher is a script without functions: line 10 defaults one environment variable,
  and, guarded by \<open>__name__ == "__main__"\<close>, lines 15-16 change the working directory to
  the script's directory, line 19 imports \<open>shopping_cart_python.main\<close>, and lines 22-24
  re-run the text of \<open>shopping_cart_python/main.py\<close> when the imported module names itself
  \<open>__main__\<close>.

  The script is nothing but a sequence of calls into the interpreter and the operating
  system, so the model keeps the process state explicit, takes the operations the script
  calls but does not define (path functions, the file system, the code of the target
  module) as the fields of a \<open>world\<close>, and records the operations the launcher itself
  invokes in a trace.
\<close>

subsection \<open>Process state, exceptions, module objects\<close>

text \<open>
  The part of the process the script touches: \<open>os.environ\<close>, the current working
  directory and \<open>sys.argv\<close> (imported on line 7, never read by the launcher).
\<close>

record proc =
  environ :: "string \<rightharpoonup> string"
  cwd :: string
  argv :: "string list"

datatype exn =
    ModuleNotFoundError string
  | FileNotFoundError string
  | OSError string
  | PyException string

text \<open>
  The value of a module attribute is a string or some other object; a module object is
  its attribute table.
\<close>

datatype pyval = PyStr string | PyOther

type_synonym pymodule = "string \<rightharpoonup> pyval"

text \<open>The operations the launcher invokes, in the order it invokes them.\<close>

datatype event =
    SetDefault string string
  | Chdir string
  | Import string
  | Open string
  | Exec string

text \<open>
  What one run, or one phase of a run, leaves behind: the process state, the operations
  invoked, and the exception that ended it, if any. An uncaught exception ends the script;
  the state it leaves is the state at the raise.
\<close>

record outcome =
  final :: proc
  trace :: "event list"
  raised :: "exn option"

subsection \<open>The world outside the script\<close>

text \<open>
  \<^item> \<open>abspath c p\<close> is \<open>os.path.abspath(p)\<close> in a process whose working directory is
    \<open>c\<close> (it may raise, as \<open>os.getcwd\<close> may);
  \<^item> \<open>dirname p\<close> is \<open>os.path.dirname(p)\<close>;
  \<^item> \<open>chdir_error c d\<close> is the exception \<open>os.chdir(d)\<close> raises from working directory
    \<open>c\<close>, or \<open>None\<close> when the directory can be entered;
  \<^item> \<open>find_module n s\<close> is the import system's search for the module named \<open>n\<close>; it
    yields the module's top-level code, which runs on the new module's attribute table
    and the process state, and either raises or returns the finished table;
  \<^item> \<open>read_text p s\<close> is \<open>open(p).read()\<close>;
  \<^item> \<open>exec_source t s\<close> is \<open>exec(t)\<close> in the launcher's namespace.
\<close>

type_synonym module_body = "pymodule \<Rightarrow> proc \<Rightarrow> proc \<times> (exn + pymodule)"

record world =
  abspath :: "string \<Rightarrow> string \<Rightarrow> exn + string"
  dirname :: "string \<Rightarrow> string"
  chdir_error :: "string \<Rightarrow> string \<Rightarrow> exn option"
  find_module :: "string \<Rightarrow> proc \<Rightarrow> module_body option"
  read_text :: "string \<Rightarrow> proc \<Rightarrow> exn + string"
  exec_source :: "string \<Rightarrow> proc \<Rightarrow> proc \<times> exn option"

subsection \<open>Library operations the script calls\<close>

text \<open>
  \<open>os.environ.setdefault(key, value)\<close>: store \<open>value\<close> only when \<open>key\<close> is not in the
  mapping.
\<close>

definition setdefault :: "string \<Rightarrow> string \<Rightarrow> proc \<Rightarrow> proc" where
  "setdefault key val s =
     (case environ s key of
        None \<Rightarrow> s\<lparr>environ := (environ s)(key \<mapsto> val)\<rparr>
      | Some _ \<Rightarrow> s)"

text \<open>
  \<open>os.chdir(d)\<close>: raise, or make \<open>d\<close> the working directory. The working directory is
  identified with the path handed to \<open>chdir\<close>.
\<close>

definition os_chdir :: "world \<Rightarrow> string \<Rightarrow> proc \<Rightarrow> exn + proc" where
  "os_chdir W d s =
     (case chdir_error W (cwd s) d of
        Some e \<Rightarrow> Inl e
      | None \<Rightarrow> Inr (s\<lparr>cwd := d\<rparr>))"

text \<open>
  The \<open>import\<close> statement: a module that is not found raises before any of its code
  runs; a module that is found gets \<open>__name__\<close> set to its dotted name, and then its
  top-level code runs.
\<close>

definition new_module :: "string \<Rightarrow> pymodule" where
  "new_module n = [''__name__'' \<mapsto> PyStr n]"

definition import_module :: "world \<Rightarrow> string \<Rightarrow> proc \<Rightarrow> proc \<times> (exn + pymodule)" where
  "import_module W n s =
     (case find_module W n s of
        None \<Rightarrow> (s, Inl (ModuleNotFoundError n))
      | Some body \<Rightarrow> body (new_module n) s)"

definition hasattr :: "pymodule \<Rightarrow> string \<Rightarrow> bool" where
  "hasattr m a = (m a \<noteq> None)"

subsection \<open>The script\<close>

definition allowed_hosts :: string where
  "allowed_hosts = ''STARLETTE_ALLOWED_HOSTS''"

definition target_module :: string where
  "target_module = ''shopping_cart_python.main''"

definition target_file :: string where
  "target_file = ''shopping_cart_python/main.py''"

text \<open>Sequencing of statements: an exception skips everything after it.\<close>

definition and_then :: "outcome \<Rightarrow> (proc \<Rightarrow> outcome) \<Rightarrow> outcome" where
  "and_then r k =
     (case raised r of
        Some e \<Rightarrow> r
      | None \<Rightarrow> (let r' = k (final r) in r'\<lparr>trace := trace r @ trace r'\<rparr>))"

text \<open>Line 10.\<close>

definition configure_environment :: "proc \<Rightarrow> outcome" where
  "configure_environment s =
     \<lparr>final = setdefault allowed_hosts ''*'' s,
      trace = [SetDefault allowed_hosts ''*''],
      raised = None\<rparr>"

text \<open>Lines 15-16; \<open>script_file\<close> is the script's \<open>__file__\<close>.\<close>

definition establish_working_directory :: "world \<Rightarrow> string \<Rightarrow> proc \<Rightarrow> outcome" where
  "establish_working_directory W script_file s =
     (case abspath W (cwd s) script_file of
        Inl e \<Rightarrow> \<lparr>final = s, trace = [], raised = Some e\<rparr>
      | Inr p \<Rightarrow>
          (let script_dir = dirname W p in
           case os_chdir W script_dir s of
             Inl e \<Rightarrow> \<lparr>final = s, trace = [Chdir script_dir], raised = Some e\<rparr>
           | Inr s' \<Rightarrow> \<lparr>final = s', trace = [Chdir script_dir], raised = None\<rparr>))"

text \<open>Lines 19-24.\<close>

definition launch_application :: "world \<Rightarrow> proc \<Rightarrow> outcome" where
  "launch_application W s =
     (case import_module W target_module s of
        (s', Inl e) \<Rightarrow> \<lparr>final = s', trace = [Import target_module], raised = Some e\<rparr>
      | (s', Inr main_module) \<Rightarrow>
          if hasattr main_module ''__name__''
             \<and> main_module ''__name__'' = Some (PyStr ''__main__'')
          then
            (case read_text W target_file s' of
               Inl e \<Rightarrow>
                 \<lparr>final = s', trace = [Import target_module, Open target_file],
                  raised = Some e\<rparr>
             | Inr src \<Rightarrow>
                 (case exec_source W src s' of
                    (s'', r) \<Rightarrow>
                      \<lparr>final = s'',
                       trace = [Import target_module, Open target_file, Exec src],
                       raised = r\<rparr>))
          else \<lparr>final = s', trace = [Import target_module], raised = None\<rparr>)"

text \<open>
  The whole script; \<open>script_name\<close> is the script's own \<open>__name__\<close> and \<open>script_file\<close> its
  \<open>__file__\<close>.
\<close>

definition start_server :: "world \<Rightarrow> string \<Rightarrow> string \<Rightarrow> proc \<Rightarrow> outcome" where
  "start_server W script_name script_file s =
     and_then (configure_environment s)
       (\<lambda>s1. if script_name = ''__main__''
             then and_then (establish_working_directory W script_file s1) (launch_application W)
             else \<lparr>final = s1, trace = [], raised = None\<rparr>)"

subsection \<open>A concrete world\<close>

text \<open>
  A small POSIX-like world used to run the model: the script lives in \<open>/srv/app\<close>, the
  target module exists and its code does nothing.
\<close>

definition example_abspath :: "string \<Rightarrow> string \<Rightarrow> exn + string" where
  "example_abspath c p = Inr (if take 1 p = ''/'' then p else c @ ''/'' @ p)"

definition example_dirname :: "string \<Rightarrow> string" where
  "example_dirname p = rev (drop 1 (dropWhile (\<lambda>x. x \<noteq> CHR ''/'') (rev p)))"

definition idle_body :: module_body where
  "idle_body ns s = (s, Inr ns)"

definition example_world :: world where
  "example_world =
     \<lparr>abspath = example_abspath,
      dirname = example_dirname,
      chdir_error = (\<lambda>c d. if d = ''/srv/app'' then None else Some (OSError d)),
      find_module = (\<lambda>n s. if n = ''shopping_cart_python.main'' then Some idle_body else None),
      read_text = (\<lambda>p s. if p = ''shopping_cart_python/main.py''
                          then Inr ''import uvicorn'' else Inl (FileNotFoundError p)),
      exec_source = (\<lambda>t s. (s, None))\<rparr>"

definition example_proc :: proc where
  "example_proc = \<lparr>environ = Map.empty, cwd = ''/home/user'', argv = [''start_server.py'']\<rparr>"

text \<open>A module whose top-level code rebinds its own \<open>__name__\<close> to \<open>__main__\<close>.\<close>

definition renaming_body :: module_body where
  "renaming_body ns s = (s, Inr (ns(''__name__'' \<mapsto> PyStr ''__main__'')))"

text \<open>The same world, except that the target module is that one.\<close>

definition renaming_world :: world where
  "renaming_world = example_world\<lparr>find_module := (\<lambda>n s. Some renaming_body)\<rparr>"

subsection \<open>Vocabulary of the properties\<close>

text \<open>Of the launcher's operations, only \<open>os.environ.setdefault\<close> writes the environment.\<close>

fun writes_environ :: "event \<Rightarrow> bool" where
  "writes_environ (SetDefault k v) = True"
| "writes_environ (Chdir d) = False"
| "writes_environ (Import n) = False"
| "writes_environ (Open p) = False"
| "writes_environ (Exec t) = False"

text \<open>
  Two process states that differ at most in \<open>sys.argv\<close>, and two runs that performed the
  same operations, ended the same way and left such states.
\<close>

definition same_but_argv :: "proc \<Rightarrow> proc \<Rightarrow> bool" where
  "same_but_argv s t = (environ s = environ t \<and> cwd s = cwd t)"

definition same_run :: "outcome \<Rightarrow> outcome \<Rightarrow> bool" where
  "same_run r r' =
     (same_but_argv (final r) (final r') \<and> trace r = trace r' \<and> raised r = raised r')"


section \<open>Properties\<close>

subsection \<open>Environment default\<close>

lemma setdefault_bound: "environ s key = Some v \<Longrightarrow> setdefault key val s = s"
  by (simp add: setdefault_def)

lemma setdefault_unbound:
  "environ s key = None \<Longrightarrow> environ (setdefault key val s) key = Some val"
  by (simp add: setdefault_def)

lemma setdefault_cwd [simp]: "cwd (setdefault key val s) = cwd s"
  by (simp add: setdefault_def split: option.splits)

lemma setdefault_argv [simp]: "argv (setdefault key val s) = argv s"
  by (simp add: setdefault_def split: option.splits)

text \<open>
  C1. If \<open>STARLETTE_ALLOWED_HOSTS\<close> is bound to \<open>v\<close> before the configure-environment
  step, it is bound to \<open>v\<close> after it; indeed the step leaves the whole process state as
  it was.
\<close>

theorem configure_environment_keeps_existing:
  assumes "environ s allowed_hosts = Some v"
  shows "environ (final (configure_environment s)) allowed_hosts = Some v
         \<and> final (configure_environment s) = s"
  using assms by (simp add: configure_environment_def setdefault_bound)

theorem configure_environment_keeps_existing_witness:
  "environ (example_proc\<lparr>environ := [allowed_hosts \<mapsto> ''example.com'']\<rparr>) allowed_hosts
     = Some ''example.com''
   \<and> environ (final (configure_environment
        (example_proc\<lparr>environ := [allowed_hosts \<mapsto> ''example.com'']\<rparr>))) allowed_hosts
     = Some ''example.com''"
  using configure_environment_keeps_existing
          [of "example_proc\<lparr>environ := [allowed_hosts \<mapsto> ''example.com'']\<rparr>" "''example.com''"]
  by simp

text \<open>
  C2. If \<open>STARLETTE_ALLOWED_HOSTS\<close> is unset before the configure-environment step, it
  equals \<open>"*"\<close> after it.
\<close>

theorem configure_environment_sets_default:
  assumes "environ s allowed_hosts = None"
  shows "environ (final (configure_environment s)) allowed_hosts = Some ''*''"
  using assms by (simp add: configure_environment_def setdefault_unbound)

theorem configure_environment_sets_default_witness:
  "environ example_proc allowed_hosts = None
   \<and> environ (final (configure_environment example_proc)) allowed_hosts = Some ''*''"
  using configure_environment_sets_default [of example_proc]
  by (simp add: example_proc_def)

subsection \<open>Working directory\<close>

lemma start_server_main:
  "start_server W ''__main__'' script_file s =
     and_then (configure_environment s)
       (\<lambda>s1. and_then (establish_working_directory W script_file s1) (launch_application W))"
  by (simp add: start_server_def)

lemma start_server_imported:
  "script_name \<noteq> ''__main__'' \<Longrightarrow>
   start_server W script_name script_file s =
     \<lparr>final = setdefault allowed_hosts ''*'' s,
      trace = [SetDefault allowed_hosts ''*''], raised = None\<rparr>"
  by (simp add: start_server_def and_then_def configure_environment_def)

lemma establish_ok:
  assumes "abspath W (cwd s) script_file = Inr L" and "chdir_error W (cwd s) (dirname W L) = None"
  shows "establish_working_directory W script_file s =
           \<lparr>final = s\<lparr>cwd := dirname W L\<rparr>, trace = [Chdir (dirname W L)], raised = None\<rparr>"
  using assms by (simp add: establish_working_directory_def os_chdir_def Let_def)

text \<open>
  C3. Whatever working directory \<open>c1\<close> the caller starts from, as long as \<open>__file__\<close>
  resolves from there to the launcher's absolute path \<open>L\<close> and the directory of \<open>L\<close>
  can be entered, the establish-working-directory step completes and leaves the working
  directory equal to the directory of \<open>L\<close>; started from another directory \<open>c2\<close> under
  the same conditions, it leaves the very same process state.
\<close>

theorem working_directory_is_script_dir:
  assumes "abspath W c1 script_file = Inr L" and "chdir_error W c1 (dirname W L) = None"
      and "abspath W c2 script_file = Inr L" and "chdir_error W c2 (dirname W L) = None"
  shows "raised (establish_working_directory W script_file (s\<lparr>cwd := c1\<rparr>)) = None
         \<and> cwd (final (establish_working_directory W script_file (s\<lparr>cwd := c1\<rparr>))) = dirname W L
         \<and> final (establish_working_directory W script_file (s\<lparr>cwd := c1\<rparr>))
             = final (establish_working_directory W script_file (s\<lparr>cwd := c2\<rparr>))"
proof -
  have 1: "establish_working_directory W script_file (s\<lparr>cwd := c1\<rparr>) =
           \<lparr>final = s\<lparr>cwd := dirname W L\<rparr>, trace = [Chdir (dirname W L)], raised = None\<rparr>"
    using establish_ok [where W = W and s = "s\<lparr>cwd := c1\<rparr>" and script_file = script_file and L = L] assms(1,2) by simp
  have 2: "establish_working_directory W script_file (s\<lparr>cwd := c2\<rparr>) =
           \<lparr>final = s\<lparr>cwd := dirname W L\<rparr>, trace = [Chdir (dirname W L)], raised = None\<rparr>"
    using establish_ok [where W = W and s = "s\<lparr>cwd := c2\<rparr>" and script_file = script_file and L = L] assms(3,4) by simp
  show ?thesis by (simp add: 1 2)
qed

lemma example_dirname_script [simp]:
  "example_dirname ''/srv/app/start_server.py'' = ''/srv/app''"
  by (simp add: example_dirname_def)

lemma example_world_simps [simp]:
  "abspath example_world = example_abspath"
  "dirname example_world = example_dirname"
  "chdir_error example_world c d = (if d = ''/srv/app'' then None else Some (OSError d))"
  "find_module example_world n s = (if n = ''shopping_cart_python.main'' then Some idle_body else None)"
  "read_text example_world p s = (if p = ''shopping_cart_python/main.py''
                          then Inr ''import uvicorn'' else Inl (FileNotFoundError p))"
  "exec_source example_world t s = (s, None)"
  by (simp_all add: example_world_def)

theorem working_directory_is_script_dir_witness:
  "abspath example_world ''/home/user'' ''/srv/app/start_server.py'' = Inr ''/srv/app/start_server.py''
   \<and> chdir_error example_world ''/home/user'' (dirname example_world ''/srv/app/start_server.py'') = None
   \<and> abspath example_world ''/tmp'' ''/srv/app/start_server.py'' = Inr ''/srv/app/start_server.py''
   \<and> chdir_error example_world ''/tmp'' (dirname example_world ''/srv/app/start_server.py'') = None
   \<and> cwd (final (establish_working_directory example_world ''/srv/app/start_server.py''
         (example_proc\<lparr>cwd := ''/home/user''\<rparr>))) = ''/srv/app''
   \<and> final (establish_working_directory example_world ''/srv/app/start_server.py''
         (example_proc\<lparr>cwd := ''/home/user''\<rparr>))
     = final (establish_working_directory example_world ''/srv/app/start_server.py''
         (example_proc\<lparr>cwd := ''/tmp''\<rparr>))"
proof -
  have a1: "abspath example_world ''/home/user'' ''/srv/app/start_server.py''
              = Inr ''/srv/app/start_server.py''"
    and a2: "abspath example_world ''/tmp'' ''/srv/app/start_server.py''
              = Inr ''/srv/app/start_server.py''"
    by (simp_all add: example_abspath_def)
  have d: "dirname example_world ''/srv/app/start_server.py'' = ''/srv/app''"
    by simp
  have c1: "chdir_error example_world ''/home/user''
              (dirname example_world ''/srv/app/start_server.py'') = None"
    and c2: "chdir_error example_world ''/tmp''
              (dirname example_world ''/srv/app/start_server.py'') = None"
    by simp_all
  show ?thesis
    using working_directory_is_script_dir [OF a1 c1 a2 c2, of example_proc] a1 a2 c1 c2
    unfolding d by blast
qed


subsection \<open>Launching the application\<close>

lemma launch_application_cases:
  assumes "import_module W target_module s = (s', Inr m)"
  shows "m ''__name__'' = Some (PyStr ''__main__'') \<Longrightarrow>
           launch_application W s =
             (case read_text W target_file s' of
                Inl e \<Rightarrow> \<lparr>final = s', trace = [Import target_module, Open target_file],
                          raised = Some e\<rparr>
              | Inr src \<Rightarrow> \<lparr>final = fst (exec_source W src s'),
                            trace = [Import target_module, Open target_file, Exec src],
                            raised = snd (exec_source W src s')\<rparr>)"
    and "m ''__name__'' \<noteq> Some (PyStr ''__main__'') \<Longrightarrow>
           launch_application W s =
             \<lparr>final = s', trace = [Import target_module], raised = None\<rparr>"
  using assms
  by (simp_all add: launch_application_def hasattr_def split: sum.splits prod.splits)

lemma launch_application_raise:
  "import_module W target_module s = (s', Inl e) \<Longrightarrow>
   launch_application W s = \<lparr>final = s', trace = [Import target_module], raised = Some e\<rparr>"
  by (simp add: launch_application_def)

text \<open>
  C4. After a successful import, if the module's \<open>__name__\<close> is \<open>__main__\<close> the
  launcher opens \<open>shopping_cart_python/main.py\<close>, and runs \<open>exec\<close> on the text it read
  (an error while reading ends the run before \<open>exec\<close>); otherwise it opens and executes
  nothing and ends normally in the state the import left.
\<close>

theorem reexecution_iff_entry_point:
  assumes "import_module W target_module s = (s', Inr m)"
  shows "(m ''__name__'' = Some (PyStr ''__main__'') \<longrightarrow>
           launch_application W s =
             (case read_text W target_file s' of
                Inl e \<Rightarrow> \<lparr>final = s', trace = [Import target_module, Open target_file],
                          raised = Some e\<rparr>
              | Inr src \<Rightarrow> \<lparr>final = fst (exec_source W src s'),
                            trace = [Import target_module, Open target_file, Exec src],
                            raised = snd (exec_source W src s')\<rparr>))
       \<and> (m ''__name__'' \<noteq> Some (PyStr ''__main__'') \<longrightarrow>
           launch_application W s =
             \<lparr>final = s', trace = [Import target_module], raised = None\<rparr>)"
  using launch_application_cases [OF assms] by blast

lemma import_example [simp]:
  "import_module example_world target_module s = (s, Inr (new_module target_module))"
  by (simp add: import_module_def target_module_def idle_body_def)

lemma import_renaming [simp]:
  "import_module (example_world\<lparr>find_module := \<lambda>n s. Some renaming_body\<rparr>) target_module s
     = (s, Inr ((new_module target_module)(''__name__'' \<mapsto> PyStr ''__main__'')))"
  by (simp add: import_module_def renaming_body_def)

theorem reexecution_iff_entry_point_witness:
  "import_module (example_world\<lparr>find_module := \<lambda>n s. Some renaming_body\<rparr>) target_module
       example_proc
     = (example_proc, Inr ((new_module target_module)(''__name__'' \<mapsto> PyStr ''__main__'')))
   \<and> launch_application (example_world\<lparr>find_module := \<lambda>n s. Some renaming_body\<rparr>)
       example_proc
     = \<lparr>final = example_proc,
        trace = [Import target_module, Open target_file, Exec ''import uvicorn''],
        raised = None\<rparr>
   \<and> import_module example_world target_module example_proc
     = (example_proc, Inr (new_module target_module))
   \<and> launch_application example_world example_proc
     = \<lparr>final = example_proc, trace = [Import target_module], raised = None\<rparr>"
proof -
  let ?W = "example_world\<lparr>find_module := \<lambda>n s. Some renaming_body\<rparr>"
  let ?m = "(new_module target_module)(''__name__'' \<mapsto> PyStr ''__main__'')"
  have i1: "import_module ?W target_module example_proc = (example_proc, Inr ?m)"
    by simp
  have i2: "import_module example_world target_module example_proc
              = (example_proc, Inr (new_module target_module))"
    by simp
  have n1: "?m ''__name__'' = Some (PyStr ''__main__'')"
    by simp
  have n2: "new_module target_module ''__name__'' \<noteq> Some (PyStr ''__main__'')"
    by (simp add: new_module_def target_module_def)
  have r: "read_text ?W target_file example_proc = Inr ''import uvicorn''"
    by (simp add: target_file_def)
  have x: "exec_source ?W ''import uvicorn'' example_proc = (example_proc, None)"
    by simp
  have l1: "launch_application ?W example_proc
              = \<lparr>final = example_proc,
                 trace = [Import target_module, Open target_file, Exec ''import uvicorn''],
                 raised = None\<rparr>"
    using reexecution_iff_entry_point [OF i1] n1 by (simp add: target_file_def)
  have l2: "launch_application example_world example_proc
              = \<lparr>final = example_proc, trace = [Import target_module], raised = None\<rparr>"
    using reexecution_iff_entry_point [OF i2] n2 by blast
  show ?thesis
    using i1 l1 i2 l2 by blast
qed

lemma start_server_established:
  assumes "abspath W (cwd s) script_file = Inr L"
      and "chdir_error W (cwd s) (dirname W L) = None"
  shows "start_server W ''__main__'' script_file s =
           (let r = launch_application W ((setdefault allowed_hosts ''*'' s)\<lparr>cwd := dirname W L\<rparr>)
            in r\<lparr>trace := [SetDefault allowed_hosts ''*'', Chdir (dirname W L)] @ trace r\<rparr>)"
proof -
  have "establish_working_directory W script_file (setdefault allowed_hosts ''*'' s) =
          \<lparr>final = (setdefault allowed_hosts ''*'' s)\<lparr>cwd := dirname W L\<rparr>,
           trace = [Chdir (dirname W L)], raised = None\<rparr>"
    using assms by (intro establish_ok) simp_all
  then show ?thesis
    by (simp add: start_server_def and_then_def configure_environment_def Let_def)
qed

text \<open>
  C5. When the import raises \<open>e\<close>, the launcher ends with \<open>e\<close> uncaught, in exactly
  the state the failed import left, having invoked nothing after the import. When the
  module is not found, the error is \<open>ModuleNotFoundError\<close> and that state is the one
  produced by lines 10-16: \<open>STARLETTE_ALLOWED_HOSTS\<close> is bound (to its earlier value, or
  to \<open>"*"\<close>) and the working directory is the script's directory.
\<close>

theorem import_failure_keeps_effects:
  assumes "abspath W (cwd s) script_file = Inr L"
      and "chdir_error W (cwd s) (dirname W L) = None"
      and "import_module W target_module
             ((setdefault allowed_hosts ''*'' s)\<lparr>cwd := dirname W L\<rparr>) = (s', Inl e)"
  shows "start_server W ''__main__'' script_file s =
           \<lparr>final = s',
            trace = [SetDefault allowed_hosts ''*'', Chdir (dirname W L), Import target_module],
            raised = Some e\<rparr>
         \<and> (find_module W target_module
               ((setdefault allowed_hosts ''*'' s)\<lparr>cwd := dirname W L\<rparr>) = None \<longrightarrow>
              e = ModuleNotFoundError target_module
              \<and> s' = (setdefault allowed_hosts ''*'' s)\<lparr>cwd := dirname W L\<rparr>
              \<and> environ s' allowed_hosts
                  = Some (case environ s allowed_hosts of None \<Rightarrow> ''*'' | Some v \<Rightarrow> v)
              \<and> cwd s' = dirname W L)"
proof (intro conjI impI)
  show "start_server W ''__main__'' script_file s =
           \<lparr>final = s',
            trace = [SetDefault allowed_hosts ''*'', Chdir (dirname W L), Import target_module],
            raised = Some e\<rparr>"
    by (simp add: start_server_established [OF assms(1,2)] launch_application_raise [OF assms(3)])
next
  assume "find_module W target_module
            ((setdefault allowed_hosts ''*'' s)\<lparr>cwd := dirname W L\<rparr>) = None"
  with assms(3)
  have e: "e = ModuleNotFoundError target_module"
    and s': "s' = (setdefault allowed_hosts ''*'' s)\<lparr>cwd := dirname W L\<rparr>"
    by (simp_all add: import_module_def)
  show "e = ModuleNotFoundError target_module" by (rule e)
  show "s' = (setdefault allowed_hosts ''*'' s)\<lparr>cwd := dirname W L\<rparr>" by (rule s')
  show "environ s' allowed_hosts
          = Some (case environ s allowed_hosts of None \<Rightarrow> ''*'' | Some v \<Rightarrow> v)"
    by (simp add: s' setdefault_def split: option.splits)
  show "cwd s' = dirname W L" by (simp add: s')
qed


theorem import_failure_keeps_effects_witness:
  "abspath (example_world\<lparr>find_module := \<lambda>n s. None\<rparr>) (cwd example_proc)
       ''/srv/app/start_server.py'' = Inr ''/srv/app/start_server.py''
   \<and> find_module (example_world\<lparr>find_module := \<lambda>n s. None\<rparr>) target_module
       ((setdefault allowed_hosts ''*'' example_proc)\<lparr>cwd := ''/srv/app''\<rparr>) = None
   \<and> raised (start_server (example_world\<lparr>find_module := \<lambda>n s. None\<rparr>) ''__main__''
         ''/srv/app/start_server.py'' example_proc)
       = Some (ModuleNotFoundError target_module)
   \<and> trace (start_server (example_world\<lparr>find_module := \<lambda>n s. None\<rparr>) ''__main__''
         ''/srv/app/start_server.py'' example_proc)
       = [SetDefault allowed_hosts ''*'', Chdir ''/srv/app'', Import target_module]
   \<and> environ (final (start_server (example_world\<lparr>find_module := \<lambda>n s. None\<rparr>) ''__main__''
         ''/srv/app/start_server.py'' example_proc)) allowed_hosts = Some ''*''
   \<and> cwd (final (start_server (example_world\<lparr>find_module := \<lambda>n s. None\<rparr>) ''__main__''
         ''/srv/app/start_server.py'' example_proc)) = ''/srv/app''"
proof -
  let ?W = "example_world\<lparr>find_module := \<lambda>n s. None\<rparr>"
  let ?s = "(setdefault allowed_hosts ''*'' example_proc)
              \<lparr>cwd := dirname ?W ''/srv/app/start_server.py''\<rparr>"
  have d: "dirname ?W ''/srv/app/start_server.py'' = ''/srv/app''"
    by simp
  have a: "abspath ?W (cwd example_proc) ''/srv/app/start_server.py''
             = Inr ''/srv/app/start_server.py''"
    by (simp add: example_abspath_def)
  have c: "chdir_error ?W (cwd example_proc) (dirname ?W ''/srv/app/start_server.py'') = None"
    by simp
  have f: "find_module ?W target_module ?s = None"
    by simp
  have i: "import_module ?W target_module ?s = (?s, Inl (ModuleNotFoundError target_module))"
    by (simp add: import_module_def)
  have e: "environ example_proc allowed_hosts = None"
    by (simp add: example_proc_def)
  note t = import_failure_keeps_effects [OF a c i]
  from t f have "environ ?s allowed_hosts = Some ''*''"
    by (simp add: e)
  with t a f show ?thesis
    unfolding d by simp
qed

subsection \<open>Order of effects\<close>

lemma launch_application_trace:
  "\<exists>src. prefix (trace (launch_application W s))
            [Import target_module, Open target_file, Exec src]"
  by (auto simp: launch_application_def split: sum.splits prod.splits)

lemma launch_application_trace_hd:
  "take 1 (trace (launch_application W s)) = [Import target_module]"
  by (auto simp: launch_application_def split: sum.splits prod.splits)

lemma start_server_abspath_raise:
  "abspath W (cwd s) script_file = Inl e \<Longrightarrow>
   start_server W ''__main__'' script_file s =
     \<lparr>final = setdefault allowed_hosts ''*'' s,
      trace = [SetDefault allowed_hosts ''*''], raised = Some e\<rparr>"
  by (simp add: start_server_def and_then_def configure_environment_def
        establish_working_directory_def)

lemma start_server_chdir_raise:
  "abspath W (cwd s) script_file = Inr L \<Longrightarrow>
   chdir_error W (cwd s) (dirname W L) = Some e \<Longrightarrow>
   start_server W ''__main__'' script_file s =
     \<lparr>final = setdefault allowed_hosts ''*'' s,
      trace = [SetDefault allowed_hosts ''*'', Chdir (dirname W L)], raised = Some e\<rparr>"
  by (simp add: start_server_def and_then_def configure_environment_def
        establish_working_directory_def os_chdir_def Let_def)

lemma start_server_trace:
  "\<exists>d src. prefix (trace (start_server W script_name script_file s))
     [SetDefault allowed_hosts ''*'', Chdir d, Import target_module, Open target_file, Exec src]
   \<and> take 1 (trace (start_server W script_name script_file s))
       = [SetDefault allowed_hosts ''*'']"
proof (cases "script_name = ''__main__''")
  case False
  then show ?thesis by (simp add: start_server_imported)
next
  case True
  show ?thesis
  proof (cases "abspath W (cwd s) script_file")
    case (Inl e)
    then show ?thesis by (simp add: True start_server_abspath_raise)
  next
    case (Inr L)
    show ?thesis
    proof (cases "chdir_error W (cwd s) (dirname W L)")
      case (Some e)
      with Inr have "trace (start_server W script_name script_file s)
                       = [SetDefault allowed_hosts ''*'', Chdir (dirname W L)]"
        by (simp add: True start_server_chdir_raise)
      then show ?thesis by auto
    next
      case None
      let ?s2 = "(setdefault allowed_hosts ''*'' s)\<lparr>cwd := dirname W L\<rparr>"
      obtain src where "prefix (trace (launch_application W ?s2))
                          [Import target_module, Open target_file, Exec src]"
        using launch_application_trace by blast
      moreover have "trace (start_server W script_name script_file s)
                       = [SetDefault allowed_hosts ''*'', Chdir (dirname W L)]
                         @ trace (launch_application W ?s2)"
        by (simp add: True start_server_established [OF Inr None] Let_def)
      ultimately show ?thesis by auto
    qed
  qed
qed

text \<open>
  C6. Run as the entry point, the launcher invokes its operations as an initial segment
  of: default \<open>STARLETTE_ALLOWED_HOSTS\<close>, change directory, import the target module,
  open the target file, execute its text, the default always first; and each operation
  acts on the state the earlier ones left. The directory is resolved and changed in the
  state \<open>s1\<close> in which the default has been applied; the import runs in \<open>s1\<close> with the
  working directory changed; the file is read, and its text executed, in the state \<open>s3\<close>
  the import left, and only when the import succeeded with a module named \<open>__main__\<close>.
  A step that raises ends the run in the state reached so far.
\<close>

theorem effects_in_order:
  "(let s1 = setdefault allowed_hosts ''*'' s;
        r = start_server W ''__main__'' script_file s
    in (\<exists>d src. prefix (trace r)
           [SetDefault allowed_hosts ''*'', Chdir d, Import target_module,
            Open target_file, Exec src])
     \<and> take 1 (trace r) = [SetDefault allowed_hosts ''*'']
     \<and> (\<forall>e. abspath W (cwd s1) script_file = Inl e \<longrightarrow>
            r = \<lparr>final = s1, trace = [SetDefault allowed_hosts ''*''], raised = Some e\<rparr>)
     \<and> (\<forall>L e. abspath W (cwd s1) script_file = Inr L
              \<and> chdir_error W (cwd s1) (dirname W L) = Some e \<longrightarrow>
            r = \<lparr>final = s1,
                 trace = [SetDefault allowed_hosts ''*'', Chdir (dirname W L)],
                 raised = Some e\<rparr>)
     \<and> (\<forall>L s3 e. abspath W (cwd s1) script_file = Inr L
              \<and> chdir_error W (cwd s1) (dirname W L) = None
              \<and> import_module W target_module (s1\<lparr>cwd := dirname W L\<rparr>) = (s3, Inl e) \<longrightarrow>
            r = \<lparr>final = s3,
                 trace = [SetDefault allowed_hosts ''*'', Chdir (dirname W L),
                          Import target_module],
                 raised = Some e\<rparr>)
     \<and> (\<forall>L s3 m. abspath W (cwd s1) script_file = Inr L
              \<and> chdir_error W (cwd s1) (dirname W L) = None
              \<and> import_module W target_module (s1\<lparr>cwd := dirname W L\<rparr>) = (s3, Inr m)
              \<and> m ''__name__'' \<noteq> Some (PyStr ''__main__'') \<longrightarrow>
            r = \<lparr>final = s3,
                 trace = [SetDefault allowed_hosts ''*'', Chdir (dirname W L),
                          Import target_module],
                 raised = None\<rparr>)
     \<and> (\<forall>L s3 m e. abspath W (cwd s1) script_file = Inr L
              \<and> chdir_error W (cwd s1) (dirname W L) = None
              \<and> import_module W target_module (s1\<lparr>cwd := dirname W L\<rparr>) = (s3, Inr m)
              \<and> m ''__name__'' = Some (PyStr ''__main__'')
              \<and> read_text W target_file s3 = Inl e \<longrightarrow>
            r = \<lparr>final = s3,
                 trace = [SetDefault allowed_hosts ''*'', Chdir (dirname W L),
                          Import target_module, Open target_file],
                 raised = Some e\<rparr>)
     \<and> (\<forall>L s3 m src. abspath W (cwd s1) script_file = Inr L
              \<and> chdir_error W (cwd s1) (dirname W L) = None
              \<and> import_module W target_module (s1\<lparr>cwd := dirname W L\<rparr>) = (s3, Inr m)
              \<and> m ''__name__'' = Some (PyStr ''__main__'')
              \<and> read_text W target_file s3 = Inr src \<longrightarrow>
            r = \<lparr>final = fst (exec_source W src s3),
                 trace = [SetDefault allowed_hosts ''*'', Chdir (dirname W L),
                          Import target_module, Open target_file, Exec src],
                 raised = snd (exec_source W src s3)\<rparr>))"
proof -
  let ?s1 = "setdefault allowed_hosts ''*'' s"
  let ?r = "start_server W ''__main__'' script_file s"
  have labels: "(\<exists>d src. prefix (trace ?r)
           [SetDefault allowed_hosts ''*'', Chdir d, Import target_module,
            Open target_file, Exec src])
     \<and> take 1 (trace ?r) = [SetDefault allowed_hosts ''*'']"
    using start_server_trace [of W "''__main__''" script_file s] by blast
  have c1: "?r = \<lparr>final = ?s1, trace = [SetDefault allowed_hosts ''*''], raised = Some e\<rparr>"
    if "abspath W (cwd ?s1) script_file = Inl e" for e
    using that by (simp add: start_server_abspath_raise)
  have c2: "?r = \<lparr>final = ?s1,
                 trace = [SetDefault allowed_hosts ''*'', Chdir (dirname W L)],
                 raised = Some e\<rparr>"
    if "abspath W (cwd ?s1) script_file = Inr L"
      and "chdir_error W (cwd ?s1) (dirname W L) = Some e" for L e
    using that by (simp add: start_server_chdir_raise)
  have est: "?r = (let a = launch_application W (?s1\<lparr>cwd := dirname W L\<rparr>)
                  in a\<lparr>trace := [SetDefault allowed_hosts ''*'', Chdir (dirname W L)]
                                   @ trace a\<rparr>)"
    if "abspath W (cwd ?s1) script_file = Inr L"
      and "chdir_error W (cwd ?s1) (dirname W L) = None" for L
    using that by (simp add: start_server_established)
  have c3: "?r = \<lparr>final = s3,
                 trace = [SetDefault allowed_hosts ''*'', Chdir (dirname W L),
                          Import target_module],
                 raised = Some e\<rparr>"
    if "abspath W (cwd ?s1) script_file = Inr L"
      and "chdir_error W (cwd ?s1) (dirname W L) = None"
      and "import_module W target_module (?s1\<lparr>cwd := dirname W L\<rparr>) = (s3, Inl e)"
    for L s3 e
    by (simp add: est [OF that(1,2)] launch_application_raise [OF that(3)])
  have c4: "?r = \<lparr>final = s3,
                 trace = [SetDefault allowed_hosts ''*'', Chdir (dirname W L),
                          Import target_module],
                 raised = None\<rparr>"
    if "abspath W (cwd ?s1) script_file = Inr L"
      and "chdir_error W (cwd ?s1) (dirname W L) = None"
      and "import_module W target_module (?s1\<lparr>cwd := dirname W L\<rparr>) = (s3, Inr m)"
      and "m ''__name__'' \<noteq> Some (PyStr ''__main__'')"
    for L s3 m
    by (simp add: est [OF that(1,2)] launch_application_cases(2) [OF that(3,4)])
  have c5: "?r = \<lparr>final = s3,
                 trace = [SetDefault allowed_hosts ''*'', Chdir (dirname W L),
                          Import target_module, Open target_file],
                 raised = Some e\<rparr>"
    if "abspath W (cwd ?s1) script_file = Inr L"
      and "chdir_error W (cwd ?s1) (dirname W L) = None"
      and "import_module W target_module (?s1\<lparr>cwd := dirname W L\<rparr>) = (s3, Inr m)"
      and "m ''__name__'' = Some (PyStr ''__main__'')"
      and "read_text W target_file s3 = Inl e"
    for L s3 m e
    by (simp add: est [OF that(1,2)] launch_application_cases(1) [OF that(3,4)] that(5))
  have c6: "?r = \<lparr>final = fst (exec_source W src s3),
                 trace = [SetDefault allowed_hosts ''*'', Chdir (dirname W L),
                          Import target_module, Open target_file, Exec src],
                 raised = snd (exec_source W src s3)\<rparr>"
    if "abspath W (cwd ?s1) script_file = Inr L"
      and "chdir_error W (cwd ?s1) (dirname W L) = None"
      and "import_module W target_module (?s1\<lparr>cwd := dirname W L\<rparr>) = (s3, Inr m)"
      and "m ''__name__'' = Some (PyStr ''__main__'')"
      and "read_text W target_file s3 = Inr src"
    for L s3 m src
    by (simp add: est [OF that(1,2)] launch_application_cases(1) [OF that(3,4)] that(5))
  show ?thesis
    unfolding Let_def
    using labels c1 c2 c3 c4 c5 c6 by blast
qed


lemma example_run:
  "start_server example_world ''__main__'' ''/srv/app/start_server.py'' example_proc =
     \<lparr>final = (setdefault allowed_hosts ''*'' example_proc)\<lparr>cwd := ''/srv/app''\<rparr>,
      trace = [SetDefault allowed_hosts ''*'', Chdir ''/srv/app'', Import target_module],
      raised = None\<rparr>"
proof -
  have a: "abspath example_world (cwd example_proc) ''/srv/app/start_server.py''
             = Inr ''/srv/app/start_server.py''"
    by (simp add: example_abspath_def)
  have c: "chdir_error example_world (cwd example_proc)
             (dirname example_world ''/srv/app/start_server.py'') = None"
    by simp
  have n: "new_module target_module ''__name__'' \<noteq> Some (PyStr ''__main__'')"
    by (simp add: new_module_def target_module_def)
  have "launch_application example_world s
          = \<lparr>final = s, trace = [Import target_module], raised = None\<rparr>" for s
    using launch_application_cases(2) [OF import_example n] .
  then show ?thesis
    by (simp add: start_server_established [OF a c])
qed

lemma renaming_world_simps [simp]:
  "abspath renaming_world = example_abspath"
  "dirname renaming_world = example_dirname"
  "chdir_error renaming_world c d = (if d = ''/srv/app'' then None else Some (OSError d))"
  "find_module renaming_world n s = Some renaming_body"
  "read_text renaming_world p s = (if p = ''shopping_cart_python/main.py''
                          then Inr ''import uvicorn'' else Inl (FileNotFoundError p))"
  "exec_source renaming_world t s = (s, None)"
  by (simp_all add: renaming_world_def)

lemma renaming_run:
  "start_server renaming_world ''__main__'' ''/srv/app/start_server.py'' example_proc =
     \<lparr>final = (setdefault allowed_hosts ''*'' example_proc)\<lparr>cwd := ''/srv/app''\<rparr>,
      trace = [SetDefault allowed_hosts ''*'', Chdir ''/srv/app'', Import target_module,
               Open target_file, Exec ''import uvicorn''],
      raised = None\<rparr>"
proof -
  have a: "abspath renaming_world (cwd example_proc) ''/srv/app/start_server.py''
             = Inr ''/srv/app/start_server.py''"
    by (simp add: example_abspath_def)
  have c: "chdir_error renaming_world (cwd example_proc)
             (dirname renaming_world ''/srv/app/start_server.py'') = None"
    by simp
  have i: "import_module renaming_world target_module s
             = (s, Inr ((new_module target_module)(''__name__'' \<mapsto> PyStr ''__main__'')))" for s
    by (simp add: import_module_def renaming_body_def)
  have n: "((new_module target_module)(''__name__'' \<mapsto> PyStr ''__main__'')) ''__name__''
             = Some (PyStr ''__main__'')"
    by simp
  have "launch_application renaming_world s
          = \<lparr>final = s, trace = [Import target_module, Open target_file, Exec ''import uvicorn''],
             raised = None\<rparr>" for s
    unfolding launch_application_cases(1) [OF i n]
    by (simp add: target_file_def)
  then show ?thesis
    by (simp add: start_server_established [OF a c])
qed

theorem effects_in_order_witness:
  "start_server renaming_world ''__main__'' ''/srv/app/start_server.py'' example_proc =
     \<lparr>final = (setdefault allowed_hosts ''*'' example_proc)\<lparr>cwd := ''/srv/app''\<rparr>,
      trace = [SetDefault allowed_hosts ''*'', Chdir ''/srv/app'', Import target_module,
               Open target_file, Exec ''import uvicorn''],
      raised = None\<rparr>
   \<and> environ (final (start_server renaming_world ''__main__'' ''/srv/app/start_server.py''
                        example_proc)) allowed_hosts = Some ''*''
   \<and> cwd (final (start_server renaming_world ''__main__'' ''/srv/app/start_server.py''
                        example_proc)) = ''/srv/app''"
proof -
  let ?s1 = "setdefault allowed_hosts ''*'' example_proc"
  let ?L = "''/srv/app/start_server.py''"
  let ?m = "(new_module target_module)(''__name__'' \<mapsto> PyStr ''__main__'')"
  have d: "dirname renaming_world ?L = ''/srv/app''"
    by simp
  have a: "abspath renaming_world (cwd ?s1) ?L = Inr ?L"
    by (simp add: example_abspath_def)
  have c: "chdir_error renaming_world (cwd ?s1) (dirname renaming_world ?L) = None"
    by simp
  have i: "import_module renaming_world target_module (?s1\<lparr>cwd := dirname renaming_world ?L\<rparr>)
             = (?s1\<lparr>cwd := dirname renaming_world ?L\<rparr>, Inr ?m)"
    by (simp add: import_module_def renaming_body_def)
  have n: "?m ''__name__'' = Some (PyStr ''__main__'')"
    by simp
  have r: "read_text renaming_world target_file (?s1\<lparr>cwd := dirname renaming_world ?L\<rparr>)
             = Inr ''import uvicorn''"
    by (simp add: target_file_def)
  have x: "exec_source renaming_world ''import uvicorn'' (?s1\<lparr>cwd := dirname renaming_world ?L\<rparr>)
             = (?s1\<lparr>cwd := dirname renaming_world ?L\<rparr>, None)"
    by simp
  from effects_in_order [of example_proc renaming_world ?L] a c i n r
  have "start_server renaming_world ''__main__'' ?L example_proc =
          \<lparr>final = fst (exec_source renaming_world ''import uvicorn''
                          (?s1\<lparr>cwd := dirname renaming_world ?L\<rparr>)),
           trace = [SetDefault allowed_hosts ''*'', Chdir (dirname renaming_world ?L),
                    Import target_module, Open target_file, Exec ''import uvicorn''],
           raised = snd (exec_source renaming_world ''import uvicorn''
                          (?s1\<lparr>cwd := dirname renaming_world ?L\<rparr>))\<rparr>"
    unfolding Let_def by blast
  then have run: "start_server renaming_world ''__main__'' ?L example_proc =
          \<lparr>final = ?s1\<lparr>cwd := ''/srv/app''\<rparr>,
           trace = [SetDefault allowed_hosts ''*'', Chdir ''/srv/app'',
                    Import target_module, Open target_file, Exec ''import uvicorn''],
           raised = None\<rparr>"
    unfolding x d by simp
  have e: "environ ?s1 allowed_hosts = Some ''*''"
    by (simp add: setdefault_unbound example_proc_def)
  show ?thesis
    by (simp add: run e)
qed

subsection \<open>The environment after line 10\<close>

lemma prefix_filter_empty:
  "prefix xs ys \<Longrightarrow> filter P ys = [] \<Longrightarrow> filter P xs = []"
  by (auto simp: prefix_def)

lemma establish_environ [simp]:
  "environ (final (establish_working_directory W script_file s)) = environ s"
  by (simp add: establish_working_directory_def os_chdir_def Let_def
           split: sum.splits option.splits)

lemma launch_application_environ:
  assumes imp: "\<And>n s. environ (fst (import_module W n s)) k = environ s k"
      and exe: "\<And>t s. environ (fst (exec_source W t s)) k = environ s k"
  shows "environ (final (launch_application W s)) k = environ s k"
proof (cases "import_module W target_module s")
  case (Pair s' r)
  have s': "environ s' k = environ s k"
    using imp [of target_module s] by (simp add: Pair)
  show ?thesis
  proof (cases r)
    case (Inl e)
    then show ?thesis by (simp add: launch_application_raise Pair s')
  next
    case (Inr m)
    show ?thesis
    proof (cases "m ''__name__'' = Some (PyStr ''__main__'')")
      case False
      then show ?thesis
        using launch_application_cases(2) [of W s s' m] Pair Inr by (simp add: s')
    next
      case True
      then have "launch_application W s =
             (case read_text W target_file s' of
                Inl e \<Rightarrow> \<lparr>final = s', trace = [Import target_module, Open target_file],
                          raised = Some e\<rparr>
              | Inr src \<Rightarrow> \<lparr>final = fst (exec_source W src s'),
                            trace = [Import target_module, Open target_file, Exec src],
                            raised = snd (exec_source W src s')\<rparr>)"
        using launch_application_cases(1) [of W s s' m] Pair Inr by simp
      then show ?thesis
        by (simp add: s' exe split: sum.splits)
    qed
  qed
qed

lemma and_then_final_environ:
  assumes "\<And>s. environ (final (k s)) a = environ s a"
  shows "environ (final (and_then r k)) a = environ (final r) a"
  using assms by (simp add: and_then_def Let_def split: option.splits)



lemma example_import_fst [simp]: "fst (import_module example_world n s) = s"
  by (simp add: import_module_def idle_body_def)


subsection \<open>Normal import\<close>

lemma target_module_not_main: "PyStr target_module \<noteq> PyStr ''__main__''"
  by (simp add: target_module_def)

text \<open>
  Unreachability of the re-execution branch does not hold of every module the import
  statement can load: a module whose own code rebinds \<open>__name__\<close> to \<open>__main__\<close> comes back from the
  import with that name, and the launcher then opens and executes the target file.
\<close>

theorem reexecution_reached_counterexample:
  "snd (import_module renaming_world target_module
          ((setdefault allowed_hosts ''*'' example_proc)\<lparr>cwd := ''/srv/app''\<rparr>))
     = Inr ((new_module target_module)(''__name__'' \<mapsto> PyStr ''__main__''))
   \<and> ((new_module target_module)(''__name__'' \<mapsto> PyStr ''__main__'')) ''__name__''
       \<noteq> Some (PyStr target_module)
   \<and> trace (start_server renaming_world ''__main__'' ''/srv/app/start_server.py'' example_proc)
       = [SetDefault allowed_hosts ''*'', Chdir ''/srv/app'', Import target_module,
          Open target_file, Exec ''import uvicorn'']"
  by (simp add: renaming_run import_module_def renaming_body_def target_module_def)

lemma import_module_frame_name:
  assumes "\<forall>s body. find_module W target_module s = Some body \<longrightarrow>
             (\<forall>ns t t' m. body ns t = (t', Inr m) \<longrightarrow> m ''__name__'' = ns ''__name__'')"
      and "import_module W target_module s = (s', Inr m)"
  shows "m ''__name__'' = Some (PyStr target_module)"
proof (cases "find_module W target_module s")
  case None
  with assms(2) show ?thesis by (simp add: import_module_def)
next
  case (Some body)
  with assms(2) have "body (new_module target_module) s = (s', Inr m)"
    by (simp add: import_module_def)
  with assms(1) Some have "m ''__name__'' = new_module target_module ''__name__''"
    by blast
  then show ?thesis by (simp add: new_module_def)
qed

text \<open>
  C8. If the target module's top-level code leaves \<open>__name__\<close> as it finds it, then
  every successful import yields a module whose \<open>__name__\<close> is
  \<open>shopping_cart_python.main\<close>, which is not \<open>__main__\<close>, and the launcher ends
  right after the import, in the state the import left: the operations of a whole run are
  an initial segment of default, change directory, import, and the target file is never
  opened or executed.
\<close>

theorem no_reexecution_after_normal_import:
  assumes "\<forall>s body. find_module W target_module s = Some body \<longrightarrow>
             (\<forall>ns t t' m. body ns t = (t', Inr m) \<longrightarrow> m ''__name__'' = ns ''__name__'')"
  shows "(\<forall>s s' m. import_module W target_module s = (s', Inr m) \<longrightarrow>
            m ''__name__'' = Some (PyStr target_module)
            \<and> m ''__name__'' \<noteq> Some (PyStr ''__main__'')
            \<and> launch_application W s
                = \<lparr>final = s', trace = [Import target_module], raised = None\<rparr>)
         \<and> (\<exists>d. prefix (trace (start_server W script_name script_file s0))
                   [SetDefault allowed_hosts ''*'', Chdir d, Import target_module])
         \<and> (\<forall>L s3 m. abspath W (cwd s0) script_file = Inr L
               \<and> chdir_error W (cwd s0) (dirname W L) = None
               \<and> import_module W target_module
                    ((setdefault allowed_hosts ''*'' s0)\<lparr>cwd := dirname W L\<rparr>) = (s3, Inr m) \<longrightarrow>
               start_server W ''__main__'' script_file s0
                 = \<lparr>final = s3,
                    trace = [SetDefault allowed_hosts ''*'', Chdir (dirname W L),
                             Import target_module],
                    raised = None\<rparr>)"
proof -
  have nm: "m ''__name__'' = Some (PyStr target_module)"
    if "import_module W target_module s = (s', Inr m)" for s s' m
    by (rule import_module_frame_name [OF assms that])
  have nn: "m ''__name__'' \<noteq> Some (PyStr ''__main__'')"
    if "import_module W target_module s = (s', Inr m)" for s s' m
    using nm [OF that] target_module_not_main by simp
  have la: "launch_application W s = \<lparr>final = s', trace = [Import target_module], raised = None\<rparr>"
    if "import_module W target_module s = (s', Inr m)" for s s' m
    by (rule launch_application_cases(2) [OF that nn [OF that]])
  have tr: "trace (launch_application W s) = [Import target_module]" for s
  proof (cases "import_module W target_module s")
    case (Pair s' r)
    show ?thesis
    proof (cases r)
      case (Inl e)
      with Pair show ?thesis by (simp add: launch_application_raise)
    next
      case (Inr m)
      with Pair la show ?thesis by simp
    qed
  qed
  have pre: "\<exists>d. prefix (trace (start_server W script_name script_file s0))
                   [SetDefault allowed_hosts ''*'', Chdir d, Import target_module]"
  proof (cases "script_name = ''__main__''")
    case False
    then show ?thesis by (simp add: start_server_imported)
  next
    case True
    show ?thesis
    proof (cases "abspath W (cwd s0) script_file")
      case (Inl e)
      then show ?thesis by (simp add: True start_server_abspath_raise)
    next
      case (Inr L)
      show ?thesis
      proof (cases "chdir_error W (cwd s0) (dirname W L)")
        case (Some e)
        with Inr show ?thesis by (auto simp: True start_server_chdir_raise)
      next
        case None
        show ?thesis
          by (auto simp: True start_server_established [OF Inr None] Let_def tr)
      qed
    qed
  qed
  have whole: "start_server W ''__main__'' script_file s0
                 = \<lparr>final = s3,
                    trace = [SetDefault allowed_hosts ''*'', Chdir (dirname W L),
                             Import target_module],
                    raised = None\<rparr>"
    if "abspath W (cwd s0) script_file = Inr L"
      and "chdir_error W (cwd s0) (dirname W L) = None"
      and "import_module W target_module
             ((setdefault allowed_hosts ''*'' s0)\<lparr>cwd := dirname W L\<rparr>) = (s3, Inr m)"
    for L s3 m
    by (simp add: start_server_established [OF that(1,2)] la [OF that(3)])
  show ?thesis
    using nm nn la pre whole by blast
qed

theorem no_reexecution_after_normal_import_witness:
  "import_module example_world target_module
       ((setdefault allowed_hosts ''*'' example_proc)\<lparr>cwd := ''/srv/app''\<rparr>)
     = ((setdefault allowed_hosts ''*'' example_proc)\<lparr>cwd := ''/srv/app''\<rparr>,
        Inr (new_module target_module))
   \<and> new_module target_module ''__name__'' = Some (PyStr target_module)
   \<and> launch_application example_world example_proc
       = \<lparr>final = example_proc, trace = [Import target_module], raised = None\<rparr>
   \<and> start_server example_world ''__main__'' ''/srv/app/start_server.py'' example_proc
       = \<lparr>final = (setdefault allowed_hosts ''*'' example_proc)\<lparr>cwd := ''/srv/app''\<rparr>,
          trace = [SetDefault allowed_hosts ''*'', Chdir ''/srv/app'', Import target_module],
          raised = None\<rparr>"
proof -
  let ?L = "''/srv/app/start_server.py''"
  let ?s2 = "(setdefault allowed_hosts ''*'' example_proc)\<lparr>cwd := dirname example_world ?L\<rparr>"
  have frame: "\<forall>s body. find_module example_world target_module s = Some body \<longrightarrow>
             (\<forall>ns t t' m. body ns t = (t', Inr m) \<longrightarrow> m ''__name__'' = ns ''__name__'')"
    by (auto simp: idle_body_def split: if_splits)
  note t = no_reexecution_after_normal_import
             [of example_world "''__main__''" ?L example_proc, OF frame]
  have d: "dirname example_world ?L = ''/srv/app''"
    by simp
  have a: "abspath example_world (cwd example_proc) ?L = Inr ?L"
    by (simp add: example_abspath_def)
  have c: "chdir_error example_world (cwd example_proc) (dirname example_world ?L) = None"
    by simp
  have i0: "import_module example_world target_module example_proc
             = (example_proc, Inr (new_module target_module))"
    by simp
  have i2: "import_module example_world target_module ?s2
             = (?s2, Inr (new_module target_module))"
    by simp
  from t i0 have p1: "new_module target_module ''__name__'' = Some (PyStr target_module)
     \<and> launch_application example_world example_proc
       = \<lparr>final = example_proc, trace = [Import target_module], raised = None\<rparr>"
    by blast
  from t a c i2
  have p2: "start_server example_world ''__main__'' ?L example_proc
       = \<lparr>final = ?s2,
          trace = [SetDefault allowed_hosts ''*'', Chdir (dirname example_world ?L),
                   Import target_module],
          raised = None\<rparr>"
    by blast
  show ?thesis
    using i2 p1 p2 unfolding d by blast
qed

text \<open>
  C9. When the launcher's own \<open>__name__\<close> is not \<open>__main__\<close>, its run consists of
  the \<open>setdefault\<close> alone: it ends normally, the working directory and \<open>sys.argv\<close>
  are unchanged, and nothing is imported, opened or executed.
\<close>

theorem imported_launcher_only_sets_default:
  assumes "script_name \<noteq> ''__main__''"
  shows "start_server W script_name script_file s =
           \<lparr>final = setdefault allowed_hosts ''*'' s,
            trace = [SetDefault allowed_hosts ''*''], raised = None\<rparr>
         \<and> cwd (final (start_server W script_name script_file s)) = cwd s
         \<and> argv (final (start_server W script_name script_file s)) = argv s"
  using assms by (simp add: start_server_imported)

theorem imported_launcher_only_sets_default_witness:
  "''start_server'' \<noteq> ''__main__''
   \<and> trace (start_server example_world ''start_server'' ''/srv/app/start_server.py''
              example_proc) = [SetDefault allowed_hosts ''*'']
   \<and> raised (start_server example_world ''start_server'' ''/srv/app/start_server.py''
              example_proc) = None
   \<and> cwd (final (start_server example_world ''start_server'' ''/srv/app/start_server.py''
              example_proc)) = ''/home/user''
   \<and> environ (final (start_server example_world ''start_server'' ''/srv/app/start_server.py''
              example_proc)) allowed_hosts = Some ''*''"
proof -
  have n: "''start_server'' \<noteq> ''__main__''" by simp
  have e: "environ example_proc allowed_hosts = None" "cwd example_proc = ''/home/user''"
    by (simp_all add: example_proc_def)
  from imported_launcher_only_sets_default
         [OF n, of example_world "''/srv/app/start_server.py''" example_proc]
  show ?thesis
    by (simp add: e setdefault_unbound)
qed

subsection \<open>Command-line arguments\<close>

lemma same_but_argv_refl [simp]: "same_but_argv s s"
  by (simp add: same_but_argv_def)

lemma same_but_argv_update [simp]: "same_but_argv s (s\<lparr>argv := a\<rparr>)"
  by (simp add: same_but_argv_def)

lemma setdefault_same:
  "same_but_argv s t \<Longrightarrow> same_but_argv (setdefault k v s) (setdefault k v t)"
  by (simp add: same_but_argv_def setdefault_def split: option.splits)

lemma configure_environment_same:
  "same_but_argv s t \<Longrightarrow> same_run (configure_environment s) (configure_environment t)"
  by (simp add: same_run_def configure_environment_def setdefault_same)

lemma establish_same:
  "same_but_argv s t \<Longrightarrow>
   same_run (establish_working_directory W script_file s)
            (establish_working_directory W script_file t)"
  by (simp add: same_run_def same_but_argv_def establish_working_directory_def os_chdir_def
        Let_def split: sum.splits option.splits)

lemma and_then_same:
  assumes "same_run r r'"
      and "\<And>s t. same_but_argv s t \<Longrightarrow> same_run (k s) (k t)"
  shows "same_run (and_then r k) (and_then r' k)"
proof (cases "raised r")
  case (Some e)
  with assms(1) have "raised r' = Some e" by (simp add: same_run_def)
  with Some assms(1) show ?thesis by (simp add: and_then_def)
next
  case None
  with assms(1) have n: "raised r' = None" and f: "same_but_argv (final r) (final r')"
    and t: "trace r = trace r'"
    by (simp_all add: same_run_def)
  from assms(2) [OF f] show ?thesis
    by (simp add: and_then_def None n t same_run_def Let_def)
qed

lemma launch_application_same:
  assumes imp: "\<forall>n s t. same_but_argv s t \<longrightarrow>
                  same_but_argv (fst (import_module W n s)) (fst (import_module W n t))
                  \<and> snd (import_module W n s) = snd (import_module W n t)"
      and rd: "\<forall>p s t. same_but_argv s t \<longrightarrow> read_text W p s = read_text W p t"
      and exe: "\<forall>x s t. same_but_argv s t \<longrightarrow>
                  same_but_argv (fst (exec_source W x s)) (fst (exec_source W x t))
                  \<and> snd (exec_source W x s) = snd (exec_source W x t)"
      and st: "same_but_argv s t"
  shows "same_run (launch_application W s) (launch_application W t)"
proof -
  obtain s' r where i1: "import_module W target_module s = (s', r)"
    by (cases "import_module W target_module s")
  obtain t' r' where i2: "import_module W target_module t = (t', r')"
    by (cases "import_module W target_module t")
  from imp st
  have "same_but_argv (fst (import_module W target_module s))
                      (fst (import_module W target_module t))
        \<and> snd (import_module W target_module s) = snd (import_module W target_module t)"
    by blast
  with i1 i2 have s't': "same_but_argv s' t'" and rr': "r' = r"
    by simp_all
  show ?thesis
  proof (cases r)
    case (Inl e)
    from i1 Inl have "launch_application W s
        = \<lparr>final = s', trace = [Import target_module], raised = Some e\<rparr>"
      by (simp add: launch_application_raise)
    moreover from i2 rr' Inl have "launch_application W t
        = \<lparr>final = t', trace = [Import target_module], raised = Some e\<rparr>"
      by (simp add: launch_application_raise)
    ultimately show ?thesis
      using s't' by (simp add: same_run_def)
  next
    case (Inr m)
    from i1 Inr have j1: "import_module W target_module s = (s', Inr m)" by simp
    from i2 rr' Inr have j2: "import_module W target_module t = (t', Inr m)" by simp
    show ?thesis
    proof (cases "m ''__name__'' = Some (PyStr ''__main__'')")
      case False
      show ?thesis
        unfolding launch_application_cases(2) [OF j1 False]
                  launch_application_cases(2) [OF j2 False]
        using s't' by (simp add: same_run_def)
    next
      case True
      from rd s't' have rt: "read_text W target_file t' = read_text W target_file s'"
        by simp
      show ?thesis
      proof (cases "read_text W target_file s'")
        case (Inl e)
        then show ?thesis
          unfolding launch_application_cases(1) [OF j1 True]
                    launch_application_cases(1) [OF j2 True] rt
          using s't' by (simp add: same_run_def)
      next
        case (Inr src)
        from exe s't'
        have "same_but_argv (fst (exec_source W src s')) (fst (exec_source W src t'))
              \<and> snd (exec_source W src s') = snd (exec_source W src t')"
          by blast
        with Inr show ?thesis
          unfolding launch_application_cases(1) [OF j1 True]
                    launch_application_cases(1) [OF j2 True] rt
          by (simp add: same_run_def)
      qed
    qed
  qed
qed

lemma start_server_take3:
  assumes "same_but_argv s t"
  shows "take 3 (trace (start_server W script_name script_file s))
         = take 3 (trace (start_server W script_name script_file t))"
proof (cases "script_name = ''__main__''")
  case False
  then show ?thesis by (simp add: start_server_imported)
next
  case True
  from assms have c: "cwd t = cwd s" by (simp add: same_but_argv_def)
  show ?thesis
  proof (cases "abspath W (cwd s) script_file")
    case (Inl e)
    then show ?thesis using c by (simp add: True start_server_abspath_raise)
  next
    case (Inr L)
    show ?thesis
    proof (cases "chdir_error W (cwd s) (dirname W L)")
      case (Some e)
      with Inr c show ?thesis by (simp add: True start_server_chdir_raise)
    next
      case None
      have "take 3 (trace (start_server W script_name script_file u))
              = [SetDefault allowed_hosts ''*'', Chdir (dirname W L), Import target_module]"
        if "cwd u = cwd s" for u
        using that Inr None launch_application_trace_hd
        by (simp add: True start_server_established Let_def)
      with c show ?thesis by simp
    qed
  qed
qed



end
